theory Spec2Isabelle
  imports Main "HOL-Library.Word"
begin

section \<open>Keys of pycardano: data model\<close>

text \<open>
  The embedding follows \<^verbatim>\<open>pycardano/key.py\<close>. A Python \<^verbatim>\<open>bytes\<close> value is a list of
  8-bit words, a \<^verbatim>\<open>str\<close> is a \<open>string\<close>. The class of an object is a field of the
  record that models it, since the constructor and the class methods read the class
  attributes \<^verbatim>\<open>KEY_TYPE\<close> and \<^verbatim>\<open>DESCRIPTION\<close> of the class they are called on.
\<close>

type_synonym bytes = "8 word list"

text \<open>The class hierarchy: \<^verbatim>\<open>Key\<close>, its two role classes and the four concrete variants.\<close>

datatype key_class =
    Key
  | AddressKey
  | SigningKey
  | PaymentSigningKey
  | PaymentVerificationKey
  | StakeSigningKey
  | StakeVerificationKey

text \<open>
  The class attributes. \<^verbatim>\<open>Key\<close> sets both to the empty string, \<^verbatim>\<open>AddressKey\<close> and
  \<^verbatim>\<open>SigningKey\<close> inherit them, each concrete variant overrides both.
\<close>

fun KEY_TYPE :: "key_class \<Rightarrow> string" where
  "KEY_TYPE Key = ''''"
| "KEY_TYPE AddressKey = ''''"
| "KEY_TYPE SigningKey = ''''"
| "KEY_TYPE PaymentSigningKey = ''PaymentSigningKeyShelley_ed25519''"
| "KEY_TYPE PaymentVerificationKey = ''PaymentVerificationKeyShelley_ed25519''"
| "KEY_TYPE StakeSigningKey = ''StakeSigningKeyShelley_ed25519''"
| "KEY_TYPE StakeVerificationKey = ''StakeVerificationKeyShelley_ed25519''"

fun DESCRIPTION :: "key_class \<Rightarrow> string" where
  "DESCRIPTION Key = ''''"
| "DESCRIPTION AddressKey = ''''"
| "DESCRIPTION SigningKey = ''''"
| "DESCRIPTION PaymentSigningKey = ''Payment Verification Key''"
| "DESCRIPTION PaymentVerificationKey = ''Payment Verification Key''"
| "DESCRIPTION StakeSigningKey = ''Stake Verification Key''"
| "DESCRIPTION StakeVerificationKey = ''Stake Verification Key''"

text \<open>The four leaf classes of the hierarchy.\<close>

fun concrete_variant :: "key_class \<Rightarrow> bool" where
  "concrete_variant PaymentSigningKey = True"
| "concrete_variant PaymentVerificationKey = True"
| "concrete_variant StakeSigningKey = True"
| "concrete_variant StakeVerificationKey = True"
| "concrete_variant _ = False"

text \<open>\<^verbatim>\<open>isinstance(k, AddressKey)\<close>: the classes that inherit the method \<^verbatim>\<open>hash\<close>.\<close>

fun is_AddressKey :: "key_class \<Rightarrow> bool" where
  "is_AddressKey AddressKey = True"
| "is_AddressKey PaymentVerificationKey = True"
| "is_AddressKey StakeVerificationKey = True"
| "is_AddressKey _ = False"

text \<open>An instance: its class and the three private attributes behind the properties.\<close>

record key =
  cls :: key_class
  payload :: bytes
  key_type :: string
  description :: string

text \<open>The exceptions the modelled code and its collaborators raise.\<close>

datatype error =
    InvalidKeyTypeException string
  | JSONDecodeError
  | KeyError string
  | ValueError
  | CBORDecodeError
  | AttributeError

section \<open>The raw key container\<close>

text \<open>
  Python's \<^verbatim>\<open>x or y\<close> for an optional string \<^verbatim>\<open>x\<close>: \<^verbatim>\<open>None\<close> and the empty
  string are falsy, so \<^verbatim>\<open>y\<close> is the value; any other string is the value itself.
\<close>

fun py_or :: "string option \<Rightarrow> string \<Rightarrow> string" where
  "py_or None y = y"
| "py_or (Some x) y = (if x = [] then y else x)"

text \<open>
  \<^verbatim>\<open>Key.__init__(self, payload, key_type=None, description=None)\<close>, called on class
  \<open>c\<close>. Both fallbacks read \<^verbatim>\<open>self.KEY_TYPE\<close>, as the source does.
\<close>

definition Key_init :: "key_class \<Rightarrow> bytes \<Rightarrow> string option \<Rightarrow> string option \<Rightarrow> key" where
  "Key_init c p kt d =
     \<lparr>cls = c, payload = p, key_type = py_or kt (KEY_TYPE c), description = py_or d (KEY_TYPE c)\<rparr>"

definition serialize :: "key \<Rightarrow> bytes" where
  "serialize k = payload k"

definition deserialize :: "key_class \<Rightarrow> bytes \<Rightarrow> key" where
  "deserialize c v = Key_init c v None None"

text \<open>
  \<^verbatim>\<open>Key.__eq__(self, other)\<close>. The argument is any Python value; the values that are
  not keys are listed by kind, and \<^verbatim>\<open>isinstance(other, Key)\<close> holds for the instances
  of all seven classes.
\<close>

datatype py_value =
    KeyObj key
  | BytesObj bytes
  | StrObj string
  | IntObj int
  | NoneObj

fun Key_eq :: "key \<Rightarrow> py_value \<Rightarrow> bool" where
  "Key_eq self (KeyObj other) =
     (payload self = payload other \<and> description self = description other \<and>
      key_type self = key_type other)"
| "Key_eq self _ = False"

section \<open>The JSON interchange codec\<close>

text \<open>
  The codec calls three collaborators that are not part of the repository: the JSON
  writer and parser of the standard library, the CBOR encoder and decoder, and the
  hexadecimal conversions of \<^verbatim>\<open>bytes\<close>. The first two are parameters of the
  functions that use them:
  \<^item> \<open>json_dumps\<close> writes a JSON document as a text of type \<open>'t\<close>, and \<open>json_loads\<close>
    parses a text, with \<open>None\<close> for a text that is not JSON;
  \<^item> \<open>cbor_dumps\<close> encodes a byte string, and \<open>cbor_loads\<close> decodes one, with
    \<open>None\<close> for input that is not an encoded byte string.
  The documents are the JSON objects whose members are strings, the shape of a key
  file; a dictionary is an association list in insertion order, read by name.
\<close>

type_synonym json_obj = "(string \<times> string) list"

text \<open>\<^verbatim>\<open>obj[name]\<close> on a dictionary: a missing name raises \<^verbatim>\<open>KeyError\<close>.\<close>

definition getitem :: "json_obj \<Rightarrow> string \<Rightarrow> error + string" where
  "getitem obj name = (case map_of obj name of None \<Rightarrow> Inl (KeyError name) | Some v \<Rightarrow> Inr v)"

text \<open>\<^verbatim>\<open>bytes.hex()\<close>: two lowercase hexadecimal digits for each byte.\<close>

definition hex_digit :: "nat \<Rightarrow> char" where
  "hex_digit n = ''0123456789abcdef'' ! n"

definition bytes_hex :: "bytes \<Rightarrow> string" where
  "bytes_hex bs = concat (map (\<lambda>b. [hex_digit (unat b div 16), hex_digit (unat b mod 16)]) bs)"

text \<open>
  \<^verbatim>\<open>bytes.fromhex(s)\<close>: ASCII whitespace before a pair of digits and at the end is
  skipped, digits of either case are read, and any other character, as well as a digit
  without its pair, raises \<^verbatim>\<open>ValueError\<close> (\<open>None\<close> here).
\<close>

definition is_space :: "char \<Rightarrow> bool" where
  "is_space c = (let n = (of_char c :: nat) in n = 32 \<or> (9 \<le> n \<and> n \<le> 13))"

definition hex_value :: "char \<Rightarrow> nat option" where
  "hex_value c =
     (let n = (of_char c :: nat) in
      if 48 \<le> n \<and> n \<le> 57 then Some (n - 48)
      else if 97 \<le> n \<and> n \<le> 102 then Some (n - 87)
      else if 65 \<le> n \<and> n \<le> 70 then Some (n - 55)
      else None)"

fun bytes_fromhex :: "string \<Rightarrow> bytes option" where
  "bytes_fromhex [] = Some []"
| "bytes_fromhex [c] = (if is_space c then Some [] else None)"
| "bytes_fromhex (c1 # c2 # cs) =
     (if is_space c1 then bytes_fromhex (c2 # cs)
      else
        (case hex_value c1 of
           None \<Rightarrow> None
         | Some h \<Rightarrow>
             (case hex_value c2 of
                None \<Rightarrow> None
              | Some l \<Rightarrow>
                  (case bytes_fromhex cs of
                     None \<Rightarrow> None
                   | Some bs \<Rightarrow> Some (of_nat (16 * h + l) # bs)))))"

text \<open>
  Modelled from the spec: \<^verbatim>\<open>to_cbor\<close> and \<^verbatim>\<open>from_cbor\<close>, the methods a key inherits
  from \<^verbatim>\<open>CBORSerializable\<close> of \<^verbatim>\<open>pycardano/serialization.py\<close>, a module that is not
  among the sources. By the specification the \<^verbatim>\<open>cborHex\<close> field is the hexadecimal
  text of the binary encoder applied to the output of \<^verbatim>\<open>serialize\<close>, and restoring
  hex-decodes and binary-decodes the field and hands the bytes to \<^verbatim>\<open>deserialize\<close> of
  the class, failing when the field is not hexadecimal or not encoded data.
\<close>

definition to_cbor :: "(bytes \<Rightarrow> bytes) \<Rightarrow> key \<Rightarrow> string" where
  "to_cbor cbor_dumps k = bytes_hex (cbor_dumps (serialize k))"

definition from_cbor :: "(bytes \<Rightarrow> bytes option) \<Rightarrow> key_class \<Rightarrow> string \<Rightarrow> error + key" where
  "from_cbor cbor_loads c h =
     (case bytes_fromhex h of
        None \<Rightarrow> Inl ValueError
      | Some bs \<Rightarrow>
          (case cbor_loads bs of
             None \<Rightarrow> Inl CBORDecodeError
           | Some v \<Rightarrow> Inr (deserialize c v)))"

text \<open>\<^verbatim>\<open>Key.to_json(self)\<close>: the dictionary of three members, written by the JSON writer.\<close>

definition to_json :: "(json_obj \<Rightarrow> 't) \<Rightarrow> (bytes \<Rightarrow> bytes) \<Rightarrow> key \<Rightarrow> 't" where
  "to_json json_dumps cbor_dumps k =
     json_dumps
       [(''type'', key_type k),
        (''description'', description k),
        (''cborHex'', to_cbor cbor_dumps k)]"

text \<open>
  \<^verbatim>\<open>Key.from_json(cls, data, validate_type=False)\<close>. The member \<^verbatim>\<open>type\<close> is read for
  the check only when \<^verbatim>\<open>validate_type\<close> holds (\<^verbatim>\<open>and\<close> evaluates its right side only
  then); the arguments of the constructor call are evaluated from left to right, so
  \<^verbatim>\<open>cborHex\<close> is read and decoded before \<^verbatim>\<open>type\<close> and \<^verbatim>\<open>description\<close> are read.
\<close>

definition invalid_key_type_message :: "key_class \<Rightarrow> string \<Rightarrow> string" where
  "invalid_key_type_message c ty =
     ''Expect key type: '' @ KEY_TYPE c @ '', got '' @ ty @ '' instead.''"

definition check_type :: "key_class \<Rightarrow> json_obj \<Rightarrow> bool \<Rightarrow> error + unit" where
  "check_type c obj validate_type =
     (if validate_type then
        (case getitem obj ''type'' of
           Inl e \<Rightarrow> Inl e
         | Inr ty \<Rightarrow>
             if ty \<noteq> KEY_TYPE c then Inl (InvalidKeyTypeException (invalid_key_type_message c ty))
             else Inr ())
      else Inr ())"

definition from_json ::
  "('t \<Rightarrow> json_obj option) \<Rightarrow> (bytes \<Rightarrow> bytes option) \<Rightarrow> key_class \<Rightarrow> 't \<Rightarrow> bool \<Rightarrow> error + key"
where
  "from_json json_loads cbor_loads c data validate_type =
     (case json_loads data of
        None \<Rightarrow> Inl JSONDecodeError
      | Some obj \<Rightarrow>
          (case check_type c obj validate_type of
             Inl e \<Rightarrow> Inl e
           | Inr _ \<Rightarrow>
               (case getitem obj ''cborHex'' of
                  Inl e \<Rightarrow> Inl e
                | Inr h \<Rightarrow>
                    (case from_cbor cbor_loads c h of
                       Inl e \<Rightarrow> Inl e
                     | Inr k0 \<Rightarrow>
                         (case getitem obj ''type'' of
                            Inl e \<Rightarrow> Inl e
                          | Inr ty \<Rightarrow>
                              (case getitem obj ''description'' of
                                 Inl e \<Rightarrow> Inl e
                               | Inr d \<Rightarrow> Inr (Key_init c (payload k0) (Some ty) (Some d))))))))"

section \<open>Hashing and key pairs\<close>

text \<open>
  Modelled from the spec: \<^verbatim>\<open>ADDR_KEYHASH_SIZE\<close> and \<^verbatim>\<open>AddrKeyHash\<close> of
  \<^verbatim>\<open>pycardano/hash.py\<close>, a module that is not among the sources. By the specification
  an address-key hash is a digest of 28 bytes; the class wraps the digest.
\<close>

definition ADDR_KEYHASH_SIZE :: nat where
  "ADDR_KEYHASH_SIZE = 28"

datatype addr_key_hash = AddrKeyHash (digest: bytes)

text \<open>
  \<^verbatim>\<open>AddressKey.hash(self)\<close>. The digest function of the cryptographic library is the
  parameter \<open>blake2b\<close>: \<open>blake2b data n\<close> is the raw digest of \<open>n\<close> bytes of \<open>data\<close>
  (\<^verbatim>\<open>encoder=RawEncoder\<close>). Only \<^verbatim>\<open>AddressKey\<close> and its subclasses have the method;
  on an instance of another class the attribute lookup raises.
\<close>

definition hash :: "(bytes \<Rightarrow> nat \<Rightarrow> bytes) \<Rightarrow> key \<Rightarrow> error + addr_key_hash" where
  "hash blake2b k =
     (if is_AddressKey (cls k) then Inr (AddrKeyHash (blake2b (payload k) ADDR_KEYHASH_SIZE))
      else Inl AttributeError)"

text \<open>
  The signing key of the cryptographic library, \<^verbatim>\<open>nacl.signing.SigningKey(seed)\<close>, read
  at \<^verbatim>\<open>verify_key\<close>: the constructor raises \<^verbatim>\<open>ValueError\<close> unless the seed has 32
  bytes, and the verification key is the Ed25519 public key of the seed, computed by
  the parameter \<open>ed25519_public\<close>.
\<close>

definition NACLSigningKey_verify_key :: "(bytes \<Rightarrow> bytes) \<Rightarrow> bytes \<Rightarrow> error + bytes" where
  "NACLSigningKey_verify_key ed25519_public seed =
     (if length seed \<noteq> 32 then Inl ValueError else Inr (ed25519_public seed))"

record key_pair =
  signing_key :: key
  verification_key :: key

definition PaymentKeyPair_init :: "bytes \<Rightarrow> bytes \<Rightarrow> key_pair" where
  "PaymentKeyPair_init sk vk =
     \<lparr>signing_key = Key_init PaymentSigningKey sk None None,
      verification_key = Key_init PaymentVerificationKey vk None None\<rparr>"

definition PaymentKeyPair_from_private_key :: "(bytes \<Rightarrow> bytes) \<Rightarrow> bytes \<Rightarrow> error + key_pair" where
  "PaymentKeyPair_from_private_key ed25519_public sk =
     (case NACLSigningKey_verify_key ed25519_public sk of
        Inl e \<Rightarrow> Inl e
      | Inr vk \<Rightarrow> Inr (PaymentKeyPair_init sk vk))"

definition StakeKeyPair_init :: "bytes \<Rightarrow> bytes \<Rightarrow> key_pair" where
  "StakeKeyPair_init sk vk =
     \<lparr>signing_key = Key_init StakeSigningKey sk None None,
      verification_key = Key_init StakeVerificationKey vk None None\<rparr>"

definition StakeKeyPair_from_private_key :: "(bytes \<Rightarrow> bytes) \<Rightarrow> bytes \<Rightarrow> error + key_pair" where
  "StakeKeyPair_from_private_key ed25519_public sk =
     (case NACLSigningKey_verify_key ed25519_public sk of
        Inl e \<Rightarrow> Inl e
      | Inr vk \<Rightarrow> Inr (StakeKeyPair_init sk vk))"

section \<open>Instances of the collaborators\<close>

text \<open>
  To run the codec on a concrete key the parameters need values. For the CBOR codec
  that is the encoding of a definite-length byte string (major type 2): a head that
  carries the length, in the initial byte when it is below 24 and otherwise in the 1,
  2, 4 or 8 bytes that follow it, most significant byte first, and then the bytes
  themselves. The decoder reads one such item and ignores what follows it. A length
  of \<open>2 ^ 64\<close> or more has no head; a Python byte string is always shorter.
\<close>

definition be_bytes :: "nat \<Rightarrow> nat \<Rightarrow> bytes" where
  "be_bytes k n = map (\<lambda>i. of_nat (n div 256 ^ i)) (rev [0..<k])"

definition be_nat :: "bytes \<Rightarrow> nat" where
  "be_nat bs = foldl (\<lambda>a b. a * 256 + unat b) 0 bs"

definition cbor_bytes_dumps :: "bytes \<Rightarrow> bytes" where
  "cbor_bytes_dumps b =
     (let n = length b in
      if n < 24 then of_nat (64 + n) # b
      else if n < 256 then 88 # be_bytes 1 n @ b
      else if n < 65536 then 89 # be_bytes 2 n @ b
      else if n < 4294967296 then 90 # be_bytes 4 n @ b
      else 91 # be_bytes 8 n @ b)"

definition cbor_take_body :: "nat \<Rightarrow> bytes \<Rightarrow> bytes option" where
  "cbor_take_body k t =
     (if length t < k then None
      else
        (let n = be_nat (take k t); body = drop k t
         in if length body < n then None else Some (take n body)))"

definition cbor_bytes_loads :: "bytes \<Rightarrow> bytes option" where
  "cbor_bytes_loads bs =
     (case bs of
        [] \<Rightarrow> None
      | h # t \<Rightarrow>
          (let a = unat h in
           if 64 \<le> a \<and> a < 88 then (if length t < a - 64 then None else Some (take (a - 64) t))
           else if a = 88 then cbor_take_body 1 t
           else if a = 89 then cbor_take_body 2 t
           else if a = 90 then cbor_take_body 4 t
           else if a = 91 then cbor_take_body 8 t
           else None))"

text \<open>
  For the JSON library the instance takes the document itself as its text: writing is
  the identity and parsing always succeeds.
\<close>

definition json_id_dumps :: "json_obj \<Rightarrow> json_obj" where
  "json_id_dumps obj = obj"

definition json_id_loads :: "json_obj \<Rightarrow> json_obj option" where
  "json_id_loads t = Some t"

section \<open>Properties of the container\<close>

lemma KEY_TYPE_nonempty: "concrete_variant c \<Longrightarrow> KEY_TYPE c \<noteq> []"
  by (cases c) simp_all

lemma py_or_nonempty: "y \<noteq> [] \<Longrightarrow> py_or x y \<noteq> []"
  by (cases x) simp_all

text \<open>
  Claim C1. A key constructed without metadata takes its type tag from the class
  attribute \<^verbatim>\<open>KEY_TYPE\<close>, and its description from \<^verbatim>\<open>KEY_TYPE\<close> as well: for each of
  the four concrete variants that is a string other than the attribute
  \<^verbatim>\<open>DESCRIPTION\<close> the claim names.
\<close>

theorem Key_init_default_description:
  "key_type (Key_init c b None None) = KEY_TYPE c
   \<and> description (Key_init c b None None) = KEY_TYPE c
   \<and> description (Key_init PaymentSigningKey b None None) = ''PaymentSigningKeyShelley_ed25519''
   \<and> DESCRIPTION PaymentSigningKey = ''Payment Verification Key''
   \<and> description (Key_init PaymentSigningKey b None None) \<noteq> DESCRIPTION PaymentSigningKey
   \<and> description (Key_init PaymentVerificationKey b None None) \<noteq> DESCRIPTION PaymentVerificationKey
   \<and> description (Key_init StakeSigningKey b None None) \<noteq> DESCRIPTION StakeSigningKey
   \<and> description (Key_init StakeVerificationKey b None None) \<noteq> DESCRIPTION StakeVerificationKey"
  by (simp add: Key_init_def)

text \<open>
  Claim C3. \<^verbatim>\<open>serialize\<close> returns the payload unchanged; \<^verbatim>\<open>deserialize\<close> of it, on
  any class and whatever metadata the original carried, gives a key with that payload
  and the class's \<^verbatim>\<open>KEY_TYPE\<close> as type tag, and with \<^verbatim>\<open>KEY_TYPE\<close> again as
  description, which for a payment signing key is not its \<^verbatim>\<open>DESCRIPTION\<close>.
\<close>

theorem deserialize_serialize:
  "serialize (Key_init c b kt d) = b
   \<and> deserialize c (serialize (Key_init c b kt d)) =
       \<lparr>cls = c, payload = b, key_type = KEY_TYPE c, description = KEY_TYPE c\<rparr>
   \<and> description (deserialize PaymentSigningKey (serialize (Key_init PaymentSigningKey b kt d)))
       \<noteq> DESCRIPTION PaymentSigningKey"
  by (simp add: serialize_def deserialize_def Key_init_def)

text \<open>
  Claim C5. Two keys compare equal exactly when their payloads, their type tags and
  their descriptions are equal; a difference in the type tag or in the description
  alone makes them unequal.
\<close>

theorem Key_eq_iff:
  "Key_eq k1 (KeyObj k2) =
     (payload k1 = payload k2 \<and> key_type k1 = key_type k2 \<and> description k1 = description k2)"
  by auto

text \<open>
  Claim C9. On every class an explicit empty string for the type tag and the
  description gives the same key as omitting both, and on a concrete variant no choice
  of the two optional arguments gives a key with an empty type tag or description.
\<close>

theorem Key_init_empty_override:
  assumes "concrete_variant c"
  shows "Key_init c b (Some '''') (Some '''') = Key_init c b None None
    \<and> key_type (Key_init c b kt d) \<noteq> ''''
    \<and> description (Key_init c b kt d) \<noteq> ''''"
  using assms by (simp add: Key_init_def KEY_TYPE_nonempty py_or_nonempty)

theorem Key_init_empty_override_witness:
  "concrete_variant StakeSigningKey
   \<and> Key_init StakeSigningKey [1, 2] (Some '''') (Some '''') = Key_init StakeSigningKey [1, 2] None None
   \<and> key_type (Key_init StakeSigningKey [1, 2] (Some '''') (Some ''''))
       = ''StakeSigningKeyShelley_ed25519''
   \<and> key_type (Key_init StakeSigningKey [1, 2] (Some '''') None) \<noteq> ''''
   \<and> description (Key_init StakeSigningKey [1, 2] None (Some '''')) \<noteq> ''''"
proof -
  have c: "concrete_variant StakeSigningKey" by simp
  show ?thesis
    using c Key_init_empty_override [OF c, of "[1, 2]" "Some ''''" None]
      Key_init_empty_override [OF c, of "[1, 2]" None "Some ''''"]
    by (simp add: Key_init_def)
qed

text \<open>
  Claim C10. The comparison reads the payload, the type tag and the description only:
  changing the class of either side leaves its result unchanged, so instances of two
  different classes with the same three attributes are equal; and against a value that
  is not a key the result is \<open>False\<close>.
\<close>

theorem Key_eq_ignores_class:
  "Key_eq (k1\<lparr>cls := c1\<rparr>) (KeyObj (k2\<lparr>cls := c2\<rparr>)) = Key_eq k1 (KeyObj k2)
   \<and> (payload k1 = payload k2 \<and> key_type k1 = key_type k2 \<and> description k1 = description k2
        \<longrightarrow> Key_eq k1 (KeyObj k2))
   \<and> ((\<forall>k'. other \<noteq> KeyObj k') \<longrightarrow> \<not> Key_eq k1 other)"
  by (cases other) simp_all

theorem Key_eq_ignores_class_witness:
  "cls (Key_init PaymentSigningKey [7] (Some ''t'') (Some ''d'')) \<noteq>
     cls (Key_init StakeSigningKey [7] (Some ''t'') (Some ''d''))
   \<and> Key_eq (Key_init PaymentSigningKey [7] (Some ''t'') (Some ''d''))
       (KeyObj (Key_init StakeSigningKey [7] (Some ''t'') (Some ''d'')))
   \<and> \<not> Key_eq (Key_init PaymentSigningKey [7] None None) (BytesObj [7])
   \<and> \<not> Key_eq (Key_init PaymentSigningKey [7] None None) NoneObj"
proof -
  let ?k1 = "Key_init PaymentSigningKey [7] (Some ''t'') (Some ''d'')"
  let ?k2 = "Key_init StakeSigningKey [7] (Some ''t'') (Some ''d'')"
  let ?k = "Key_init PaymentSigningKey [7] None None"
  have e: "payload ?k1 = payload ?k2 \<and> key_type ?k1 = key_type ?k2
      \<and> description ?k1 = description ?k2"
    by (simp add: Key_init_def)
  have b: "\<forall>k'. BytesObj [7] \<noteq> KeyObj k'" by simp
  have n: "\<forall>k'. NoneObj \<noteq> KeyObj k'" by simp
  have "cls ?k1 \<noteq> cls ?k2" by (simp add: Key_init_def)
  moreover have "Key_eq ?k1 (KeyObj ?k2)"
    using Key_eq_ignores_class [where ?k1.0 = ?k1 and ?k2.0 = ?k2 and other = NoneObj and ?c1.0 = Key and ?c2.0 = Key] e by blast
  moreover have "\<not> Key_eq ?k (BytesObj [7])"
    using Key_eq_ignores_class [where ?k1.0 = ?k and ?k2.0 = ?k and other = "BytesObj [7]" and ?c1.0 = Key and ?c2.0 = Key] b by blast
  moreover have "\<not> Key_eq ?k NoneObj"
    using Key_eq_ignores_class [where ?k1.0 = ?k and ?k2.0 = ?k and other = NoneObj and ?c1.0 = Key and ?c2.0 = Key] n by blast
  ultimately show ?thesis by blast
qed

section \<open>Properties of the collaborators' instances\<close>

lemma hex_value_hex_digit_all: "\<forall>n \<in> set [0..<16]. hex_value (hex_digit n) = Some n"
  by code_simp

lemma hex_value_hex_digit: "n < 16 \<Longrightarrow> hex_value (hex_digit n) = Some n"
  using hex_value_hex_digit_all by simp

lemma is_space_hex_digit_all: "\<forall>n \<in> set [0..<16]. \<not> is_space (hex_digit n)"
  by code_simp

lemma is_space_hex_digit: "n < 16 \<Longrightarrow> \<not> is_space (hex_digit n)"
  using is_space_hex_digit_all by simp

lemma byte_of_nibbles: "of_nat (16 * (unat b div 16) + unat b mod 16) = (b :: 8 word)"
  by simp

lemma unat_byte_div_16: "unat (b :: 8 word) div 16 < 16"
proof -
  have "unat b < 2 ^ LENGTH(8)" by (rule unsigned_less)
  then have "unat b < 256" by simp
  then show ?thesis by simp
qed

text \<open>Hexadecimal text read back gives the bytes it was written from.\<close>

lemma bytes_fromhex_bytes_hex: "bytes_fromhex (bytes_hex bs) = Some bs"
proof (induction bs)
  case Nil
  show ?case by (simp add: bytes_hex_def)
next
  case (Cons b bs)
  have "bytes_hex (b # bs) = hex_digit (unat b div 16) # hex_digit (unat b mod 16) # bytes_hex bs"
    by (simp add: bytes_hex_def)
  then show ?case
    using Cons.IH
    by (simp add: hex_value_hex_digit is_space_hex_digit unat_byte_div_16 byte_of_nibbles)
qed

lemma be_bytes_Suc: "be_bytes (Suc k) n = of_nat (n div 256 ^ k) # be_bytes k n"
  by (simp add: be_bytes_def)

lemma length_be_bytes: "length (be_bytes k n) = k"
  by (simp add: be_bytes_def)

lemma unat_byte_of_nat: "unat (of_nat m :: 8 word) = m mod 256"
  by (simp add: unat_of_nat)

lemma foldl_be_bytes:
  "foldl (\<lambda>a b. a * 256 + unat (b :: 8 word)) a (be_bytes k n) = a * 256 ^ k + n mod 256 ^ k"
proof (induction k arbitrary: a)
  case 0
  show ?case by (simp add: be_bytes_def)
next
  case (Suc k)
  have m: "n mod (256 ^ k * 256) = 256 ^ k * (n div 256 ^ k mod 256) + n mod 256 ^ k"
    by (rule mod_mult2_eq)
  have "foldl (\<lambda>a b. a * 256 + unat (b :: 8 word)) a (be_bytes (Suc k) n) =
      foldl (\<lambda>a b. a * 256 + unat (b :: 8 word)) (a * 256 + n div 256 ^ k mod 256) (be_bytes k n)"
    by (simp add: be_bytes_Suc unat_byte_of_nat)
  also have "\<dots> = (a * 256 + n div 256 ^ k mod 256) * 256 ^ k + n mod 256 ^ k"
    by (rule Suc.IH)
  also have "\<dots> = a * 256 ^ Suc k + n mod 256 ^ Suc k"
    using m by (simp add: algebra_simps)
  finally show ?case .
qed

lemma be_nat_be_bytes: "n < 256 ^ k \<Longrightarrow> be_nat (be_bytes k n) = n"
  by (simp add: be_nat_def foldl_be_bytes)

lemma unat_short_head: "n < 24 \<Longrightarrow> unat (64 + word_of_nat n :: 8 word) = 64 + n"
  using unat_byte_of_nat [of "64 + n"] by simp

lemma cbor_take_body_be_bytes:
  assumes "length b < 256 ^ k"
  shows "cbor_take_body k (be_bytes k (length b) @ b) = Some b"
  using assms by (simp add: cbor_take_body_def length_be_bytes be_nat_be_bytes)

text \<open>
  The byte-string instance of the CBOR codec decodes what it encodes, for every byte
  string whose length fits the longest head.
\<close>

lemma cbor_bytes_loads_dumps:
  assumes "length b < 2 ^ 64"
  shows "cbor_bytes_loads (cbor_bytes_dumps b) = Some b"
proof -
  let ?n = "length b"
  consider "?n < 24" | "24 \<le> ?n" "?n < 256" | "256 \<le> ?n" "?n < 65536"
    | "65536 \<le> ?n" "?n < 4294967296" | "4294967296 \<le> ?n"
    by linarith
  then show ?thesis
  proof cases
    case 1
    then show ?thesis
      by (simp add: cbor_bytes_dumps_def cbor_bytes_loads_def unat_short_head)
  next
    case 2
    then show ?thesis
      using cbor_take_body_be_bytes [of b 1]
      by (simp add: cbor_bytes_dumps_def cbor_bytes_loads_def)
  next
    case 3
    then show ?thesis
      using cbor_take_body_be_bytes [of b 2]
      by (simp add: cbor_bytes_dumps_def cbor_bytes_loads_def)
  next
    case 4
    then show ?thesis
      using cbor_take_body_be_bytes [of b 4]
      by (simp add: cbor_bytes_dumps_def cbor_bytes_loads_def)
  next
    case 5
    then show ?thesis
      using cbor_take_body_be_bytes [of b 8] assms
      by (simp add: cbor_bytes_dumps_def cbor_bytes_loads_def)
  qed
qed

section \<open>Properties of the JSON codec\<close>

lemma from_cbor_to_cbor:
  assumes "cbor_loads (cbor_dumps (payload k)) = Some (payload k)"
  shows "from_cbor cbor_loads c (to_cbor cbor_dumps k) = Inr (deserialize c (payload k))"
  using assms by (simp add: from_cbor_def to_cbor_def serialize_def bytes_fromhex_bytes_hex)

lemma getitem_simps:
  "getitem ((n, v) # obj) m = (if n = m then Inr v else getitem obj m)"
  "getitem [] m = Inl (KeyError m)"
  by (simp_all add: getitem_def)

text \<open>
  Restoring what \<^verbatim>\<open>to_json\<close> wrote, with any JSON library and any CBOR codec that
  read back this key's text and payload: the constructor receives the payload and the
  two metadata strings of the key that was written.
\<close>

lemma from_json_to_json:
  assumes j: "json_loads (to_json json_dumps cbor_dumps k) =
            Some [(''type'', key_type k), (''description'', description k),
                  (''cborHex'', to_cbor cbor_dumps k)]"
      and c: "cbor_loads (cbor_dumps (payload k)) = Some (payload k)"
      and t: "key_type k = KEY_TYPE c"
  shows "from_json json_loads cbor_loads c (to_json json_dumps cbor_dumps k) v =
           Inr (Key_init c (payload k) (Some (key_type k)) (Some (description k)))"
  using j t
  by (simp add: from_json_def check_type_def getitem_simps
      from_cbor_to_cbor [of cbor_loads cbor_dumps k, OF c] deserialize_def Key_init_def)

text \<open>
  With the instances of the collaborators the round trip of a key built from a payload
  alone returns, on every class, the payload and the class's \<^verbatim>\<open>KEY_TYPE\<close> as type
  tag and as description.
\<close>

lemma json_round_trip_instances:
  assumes "length b < 2 ^ 64"
  shows "from_json json_id_loads cbor_bytes_loads c
           (to_json json_id_dumps cbor_bytes_dumps (Key_init c b None None)) v
         = Inr \<lparr>cls = c, payload = b, key_type = KEY_TYPE c, description = KEY_TYPE c\<rparr>"
proof -
  let ?k = "Key_init c b None None"
  have j: "json_id_loads (to_json json_id_dumps cbor_bytes_dumps ?k) =
      Some [(''type'', key_type ?k), (''description'', description ?k),
            (''cborHex'', to_cbor cbor_bytes_dumps ?k)]"
    by (simp add: to_json_def json_id_loads_def json_id_dumps_def)
  have cb: "cbor_bytes_loads (cbor_bytes_dumps (payload ?k)) = Some (payload ?k)"
    using assms by (simp add: Key_init_def cbor_bytes_loads_dumps)
  have t: "key_type ?k = KEY_TYPE c"
    by (simp add: Key_init_def)
  show ?thesis
    using from_json_to_json [where json_loads = json_id_loads and json_dumps = json_id_dumps
        and cbor_loads = cbor_bytes_loads and cbor_dumps = cbor_bytes_dumps and k = ?k and c = c
        and v = v, OF j cb t]
    by (simp add: Key_init_def)
qed

text \<open>
  Claim C2. The JSON round trip of a payment signing key built from the payload
  \<^verbatim>\<open>01 02 ff\<close> alone, run with the instances of the collaborators: the payload and the
  type tag come back, and the description that comes back is the type tag
  \<^verbatim>\<open>PaymentSigningKeyShelley_ed25519\<close>, while the \<^verbatim>\<open>DESCRIPTION\<close> of the class is
  \<^verbatim>\<open>Payment Verification Key\<close>.
\<close>

theorem from_json_to_json_description:
  "from_json json_id_loads cbor_bytes_loads PaymentSigningKey
     (to_json json_id_dumps cbor_bytes_dumps (Key_init PaymentSigningKey [1, 2, 255] None None)) False =
   Inr \<lparr>cls = PaymentSigningKey, payload = [1, 2, 255],
        key_type = ''PaymentSigningKeyShelley_ed25519'',
        description = ''PaymentSigningKeyShelley_ed25519''\<rparr>
   \<and> DESCRIPTION PaymentSigningKey = ''Payment Verification Key''"
  by (simp add: from_json_def to_json_def json_id_loads_def json_id_dumps_def check_type_def
      getitem_def to_cbor_def from_cbor_def serialize_def deserialize_def Key_init_def
      cbor_bytes_dumps_def cbor_bytes_loads_def bytes_hex_def hex_digit_def hex_value_def
      is_space_def)

text \<open>
  Claim C4. Take a text that parses to an object with the members \<^verbatim>\<open>type\<close>,
  \<^verbatim>\<open>description\<close> and \<^verbatim>\<open>cborHex\<close>, the last one hexadecimal text that the CBOR
  decoder accepts. With \<^verbatim>\<open>validate_type=True\<close> restoring it on a class fails with
  \<^verbatim>\<open>InvalidKeyTypeException\<close> exactly when the \<^verbatim>\<open>type\<close> member differs from the
  \<^verbatim>\<open>KEY_TYPE\<close> of the class, and returns the key when they are equal; with
  \<^verbatim>\<open>validate_type=False\<close> it returns the key whatever the \<^verbatim>\<open>type\<close> member is.
\<close>

theorem from_json_validate_type:
  assumes "json_loads t = Some obj"
      and "map_of obj ''type'' = Some ty"
      and "map_of obj ''description'' = Some d"
      and "map_of obj ''cborHex'' = Some h"
      and "bytes_fromhex h = Some bs"
      and "cbor_loads bs = Some p"
  shows "((\<exists>msg. from_json json_loads cbor_loads c t True = Inl (InvalidKeyTypeException msg))
            = (ty \<noteq> KEY_TYPE c))
       \<and> (ty = KEY_TYPE c \<longrightarrow>
            from_json json_loads cbor_loads c t True = Inr (Key_init c p (Some ty) (Some d)))
       \<and> from_json json_loads cbor_loads c t False = Inr (Key_init c p (Some ty) (Some d))"
  using assms
  by (simp add: from_json_def check_type_def getitem_def from_cbor_def deserialize_def Key_init_def)

theorem from_json_validate_type_witness:
  "json_id_loads [(''type'', ''StakeVerificationKeyShelley_ed25519''), (''description'', ''my key''),
       (''cborHex'', ''4201ff'')]
     = Some [(''type'', ''StakeVerificationKeyShelley_ed25519''), (''description'', ''my key''),
       (''cborHex'', ''4201ff'')]
   \<and> bytes_fromhex ''4201ff'' = Some [66, 1, 255]
   \<and> cbor_bytes_loads [66, 1, 255] = Some [1, 255]
   \<and> (\<exists>msg. from_json json_id_loads cbor_bytes_loads PaymentVerificationKey
         [(''type'', ''StakeVerificationKeyShelley_ed25519''), (''description'', ''my key''),
          (''cborHex'', ''4201ff'')] True = Inl (InvalidKeyTypeException msg))
   \<and> from_json json_id_loads cbor_bytes_loads StakeVerificationKey
         [(''type'', ''StakeVerificationKeyShelley_ed25519''), (''description'', ''my key''),
          (''cborHex'', ''4201ff'')] True
       = Inr \<lparr>cls = StakeVerificationKey, payload = [1, 255],
              key_type = ''StakeVerificationKeyShelley_ed25519'', description = ''my key''\<rparr>
   \<and> from_json json_id_loads cbor_bytes_loads PaymentVerificationKey
         [(''type'', ''StakeVerificationKeyShelley_ed25519''), (''description'', ''my key''),
          (''cborHex'', ''4201ff'')] False
       = Inr \<lparr>cls = PaymentVerificationKey, payload = [1, 255],
              key_type = ''StakeVerificationKeyShelley_ed25519'', description = ''my key''\<rparr>"
proof -
  let ?obj = "[(''type'', ''StakeVerificationKeyShelley_ed25519''), (''description'', ''my key''),
       (''cborHex'', ''4201ff'')]"
  have l: "json_id_loads ?obj = Some ?obj" by (simp add: json_id_loads_def)
  have ty: "map_of ?obj ''type'' = Some ''StakeVerificationKeyShelley_ed25519''" by simp
  have d: "map_of ?obj ''description'' = Some ''my key''" by simp
  have h: "map_of ?obj ''cborHex'' = Some ''4201ff''" by simp
  have x: "bytes_fromhex ''4201ff'' = Some [66, 1, 255]"
    by (simp add: hex_value_def is_space_def)
  have c: "cbor_bytes_loads [66, 1, 255] = Some [1, 255]" by (simp add: cbor_bytes_loads_def)
  note a = from_json_validate_type [where json_loads = json_id_loads and cbor_loads = cbor_bytes_loads
      and t = ?obj and c = PaymentVerificationKey, OF l ty d h x c]
  note b = from_json_validate_type [where json_loads = json_id_loads and cbor_loads = cbor_bytes_loads
      and t = ?obj and c = StakeVerificationKey, OF l ty d h x c]
  show ?thesis using l x c a b by (simp add: Key_init_def)
qed

text \<open>
  Claim C6. \<^verbatim>\<open>to_json\<close> hands the JSON writer an object of exactly the three
  members \<^verbatim>\<open>type\<close>, \<^verbatim>\<open>description\<close> and \<^verbatim>\<open>cborHex\<close>: the key's type tag, its
  description, and the hexadecimal text of the CBOR encoding of what \<^verbatim>\<open>serialize\<close>
  returns, which is the payload.
\<close>

theorem to_json_fields:
  "to_json json_dumps cbor_dumps k =
     json_dumps [(''type'', key_type k), (''description'', description k),
                 (''cborHex'', bytes_hex (cbor_dumps (serialize k)))]
   \<and> serialize k = payload k
   \<and> map fst [(''type'', key_type k), (''description'', description k),
               (''cborHex'', bytes_hex (cbor_dumps (serialize k)))]
       = [''type'', ''description'', ''cborHex'']"
  by (simp add: to_json_def to_cbor_def serialize_def)

section \<open>Properties of hashing and key pairs\<close>

text \<open>
  Claim C7. On a payment or stake verification key \<^verbatim>\<open>hash\<close> returns the raw digest
  the library computes for the payload at the size \<^verbatim>\<open>ADDR_KEYHASH_SIZE\<close>; when the
  library returns as many bytes as it is asked for, these are 28 bytes; and a
  verification key with the same payload has the same hash, whatever its class and
  metadata.
\<close>

theorem hash_digest:
  assumes "cls k = PaymentVerificationKey \<or> cls k = StakeVerificationKey"
      and "length (blake2b (payload k) ADDR_KEYHASH_SIZE) = ADDR_KEYHASH_SIZE"
  shows "(\<exists>h. hash blake2b k = Inr h \<and> digest h = blake2b (payload k) ADDR_KEYHASH_SIZE
             \<and> length (digest h) = 28)
       \<and> (\<forall>k'. (cls k' = PaymentVerificationKey \<or> cls k' = StakeVerificationKey)
               \<and> payload k' = payload k \<longrightarrow> hash blake2b k' = hash blake2b k)"
  using assms by (auto simp add: hash_def ADDR_KEYHASH_SIZE_def)

theorem hash_digest_witness:
  "cls (Key_init PaymentVerificationKey [1, 2, 3] None None) = PaymentVerificationKey
   \<and> length (take ADDR_KEYHASH_SIZE ([1, 2, 3] @ replicate ADDR_KEYHASH_SIZE (0 :: 8 word)))
       = ADDR_KEYHASH_SIZE
   \<and> (\<exists>h. hash (\<lambda>data n. take n (data @ replicate n 0))
             (Key_init PaymentVerificationKey [1, 2, 3] None None) = Inr h
          \<and> length (digest h) = 28)
   \<and> hash (\<lambda>data n. take n (data @ replicate n 0))
        (Key_init StakeVerificationKey [1, 2, 3] (Some ''t'') None)
     = hash (\<lambda>data n. take n (data @ replicate n 0))
        (Key_init PaymentVerificationKey [1, 2, 3] None None)"
proof -
  let ?bl = "\<lambda>(data :: bytes) n. take n (data @ replicate n 0)"
  let ?k = "Key_init PaymentVerificationKey [1, 2, 3] None None"
  let ?k' = "Key_init StakeVerificationKey [1, 2, 3] (Some ''t'') None"
  have c: "cls ?k = PaymentVerificationKey \<or> cls ?k = StakeVerificationKey"
    by (simp add: Key_init_def)
  have l: "length (?bl (payload ?k) ADDR_KEYHASH_SIZE) = ADDR_KEYHASH_SIZE"
    by (simp add: Key_init_def)
  have p: "(cls ?k' = PaymentVerificationKey \<or> cls ?k' = StakeVerificationKey)
      \<and> payload ?k' = payload ?k"
    by (simp add: Key_init_def)
  note t = hash_digest [where blake2b = ?bl and k = ?k, OF c l]
  from t have "\<exists>h. hash ?bl ?k = Inr h \<and> length (digest h) = 28" by blast
  moreover from t p have "hash ?bl ?k' = hash ?bl ?k" by blast
  moreover have "cls ?k = PaymentVerificationKey" by (simp add: Key_init_def)
  moreover have "length (take ADDR_KEYHASH_SIZE ([1, 2, 3] @ replicate ADDR_KEYHASH_SIZE (0 :: 8 word)))
       = ADDR_KEYHASH_SIZE" by simp
  ultimately show ?thesis by blast
qed

text \<open>
  Claim C8. For a seed of 32 bytes \<^verbatim>\<open>from_private_key\<close> of either pair class returns
  a pair: its signing key is of the pair's signing class and holds the seed, its
  verification key is of the pair's verification class and holds the Ed25519 public
  key of the seed, a function of the seed alone.
\<close>

theorem from_private_key_derives:
  assumes "length seed = 32"
  shows "(\<exists>kp. PaymentKeyPair_from_private_key ed25519_public seed = Inr kp
            \<and> cls (signing_key kp) = PaymentSigningKey \<and> payload (signing_key kp) = seed
            \<and> cls (verification_key kp) = PaymentVerificationKey
            \<and> payload (verification_key kp) = ed25519_public seed)
       \<and> (\<exists>kp. StakeKeyPair_from_private_key ed25519_public seed = Inr kp
            \<and> cls (signing_key kp) = StakeSigningKey \<and> payload (signing_key kp) = seed
            \<and> cls (verification_key kp) = StakeVerificationKey
            \<and> payload (verification_key kp) = ed25519_public seed)"
  using assms
  by (simp add: PaymentKeyPair_from_private_key_def StakeKeyPair_from_private_key_def
      NACLSigningKey_verify_key_def PaymentKeyPair_init_def StakeKeyPair_init_def Key_init_def)

theorem from_private_key_derives_witness:
  "length (replicate 32 (0 :: 8 word)) = 32
   \<and> (\<exists>kp. PaymentKeyPair_from_private_key (map (\<lambda>b. b + 1)) (replicate 32 0) = Inr kp
          \<and> payload (signing_key kp) = replicate 32 0
          \<and> payload (verification_key kp) = replicate 32 1)
   \<and> (\<exists>kp. StakeKeyPair_from_private_key (map (\<lambda>b. b + 1)) (replicate 32 0) = Inr kp
          \<and> payload (signing_key kp) = replicate 32 0
          \<and> payload (verification_key kp) = replicate 32 1)"
proof -
  have l: "length (replicate 32 (0 :: 8 word)) = 32" by simp
  have m: "map (\<lambda>b. b + 1) (replicate 32 (0 :: 8 word)) = replicate 32 1" by simp
  note t = from_private_key_derives [OF l, of "map (\<lambda>b. b + 1)"]
  show ?thesis
    using l t unfolding m by blast
qed

end
